theory Spec2Isabelle
  imports Main "HOL-Library.AList" "HOL-Library.Sublist"
begin

section \<open>Python values, exceptions and the libraries the server calls\<close>

text \<open>
  \<^verbatim>\<open>server.py\<close> is six tool functions over \<^verbatim>\<open>imaplib\<close> and \<^verbatim>\<open>email\<close>, and the helper
  \<^verbatim>\<open>extract_body\<close>. Python \<^verbatim>\<open>bytes\<close> and \<^verbatim>\<open>str\<close> are both character lists here.
  Every exception the code can meet is a value of \<open>pyexn\<close>; a computation that may raise
  returns \<open>pyexn + 'a\<close>, with \<open>Inl\<close> for the exception.
\<close>

type_synonym bytes = string

datatype pyexn =
    LibError string
  | Exception string
  | UnboundLocalError string
  | AttributeError
  | TypeError
  | IndexError
  | UnicodeDecodeError

text \<open>
  \<open>LibError\<close> stands for what \<^verbatim>\<open>imaplib\<close> raises itself (\<^verbatim>\<open>IMAP4.error\<close>, \<^verbatim>\<open>IMAP4.abort\<close>,
  socket errors); \<open>Exception\<close> is the plain \<^verbatim>\<open>Exception(msg)\<close> of \<^verbatim>\<open>view_email\<close>.

  An element of the data list that an \<^verbatim>\<open>imaplib\<close> call returns is \<^verbatim>\<open>None\<close>, a bytes
  object, or a pair of bytes objects (a response with a literal).
\<close>

datatype item = PyNone | Bytes bytes | Tuple bytes bytes

text \<open>
  A parsed \<^verbatim>\<open>email.message.Message\<close>: its headers, its content type, and a payload that is
  either a raw string (single-part) or a list of sub-messages (multi-part).
\<close>

datatype message =
    Leaf "(string \<times> string) list" string bytes
  | Multipart "(string \<times> string) list" string "message list"

fun is_multipart :: "message \<Rightarrow> bool" where
  "is_multipart (Leaf h c b) = False"
| "is_multipart (Multipart h c ps) = True"

fun get_content_type :: "message \<Rightarrow> string" where
  "get_content_type (Leaf h c b) = c"
| "get_content_type (Multipart h c ps) = c"

text \<open>
  \<^verbatim>\<open>msg[name]\<close>: the library lowers the name asked for and the name of each header in
  turn, and returns the value of the first header whose lowered name is equal, or
  \<^verbatim>\<open>None\<close>. Header names are ASCII; the value is modelled as its text.
\<close>

definition lower :: "string \<Rightarrow> string" where
  "lower s =
     map (\<lambda>c. case map_of (zip ''ABCDEFGHIJKLMNOPQRSTUVWXYZ'' ''abcdefghijklmnopqrstuvwxyz'') c of
                 None \<Rightarrow> c
               | Some d \<Rightarrow> d) s"

fun header_value :: "(string \<times> string) list \<Rightarrow> string \<Rightarrow> string option" where
  "header_value [] name = None"
| "header_value ((k, v) # rest) name =
     (if lower k = lower name then Some v else header_value rest name)"

fun get_header :: "message \<Rightarrow> string \<Rightarrow> string option" where
  "get_header (Leaf h c b) name = header_value h name"
| "get_header (Multipart h c ps) name = header_value h name"

text \<open>
  \<^verbatim>\<open>Message.walk\<close> yields the message itself, then, when it is multi-part, the walk of every
  sub-part in order.
\<close>

fun walk :: "message \<Rightarrow> message list" where
  "walk (Leaf h c b) = [Leaf h c b]"
| "walk (Multipart h c ps) = Multipart h c ps # concat (map walk ps)"

text \<open>
  The library functions whose results depend on the bytes themselves are parameters of the
  model: the parser \<^verbatim>\<open>email.message_from_bytes\<close>, the content-transfer decoding that
  \<^verbatim>\<open>get_payload(decode=True)\<close> applies to a single-part payload (chosen by the part's headers),
  and \<^verbatim>\<open>bytes.decode()\<close>, which raises on bytes that are not UTF-8.
\<close>

record pylib =
  message_from_bytes :: "bytes \<Rightarrow> message"
  transfer_decode :: "(string \<times> string) list \<Rightarrow> bytes \<Rightarrow> bytes"
  bytes_decode :: "bytes \<Rightarrow> pyexn + string"

text \<open>\<^verbatim>\<open>get_payload(decode=True)\<close> returns \<^verbatim>\<open>None\<close> for a multi-part message.\<close>

fun get_payload_decode :: "pylib \<Rightarrow> message \<Rightarrow> bytes option" where
  "get_payload_decode lib (Leaf h c b) = Some (transfer_decode lib h b)"
| "get_payload_decode lib (Multipart h c ps) = None"

text \<open>
  \<^verbatim>\<open>part.get_payload(decode=True).decode()\<close>: on \<^verbatim>\<open>None\<close> the attribute lookup raises
  \<^verbatim>\<open>AttributeError\<close>.
\<close>

definition payload_text :: "pylib \<Rightarrow> message \<Rightarrow> pyexn + string" where
  "payload_text lib part =
     (case get_payload_decode lib part of
        None \<Rightarrow> Inl AttributeError
      | Some b \<Rightarrow> bytes_decode lib b)"

section \<open>extract\_body\<close>

text \<open>
  The loop of the multi-part branch, over the list that \<^verbatim>\<open>walk\<close> yields. Its state is the
  pair of local variables \<^verbatim>\<open>body\<close> and \<^verbatim>\<open>content_type\<close>; the latter is unbound (\<open>None\<close>)
  until the first iteration. An exception inside \<^verbatim>\<open>try\<close> leaves \<^verbatim>\<open>body\<close> as it was.
\<close>

fun scan_parts :: "pylib \<Rightarrow> message list \<Rightarrow> string \<times> string option \<Rightarrow> string \<times> string option" where
  "scan_parts lib [] (body, content_type) = (body, content_type)"
| "scan_parts lib (part # rest) (body, content_type) =
     (case payload_text lib part of
        Inr text \<Rightarrow>
          if text \<noteq> [] then (text, Some (get_content_type part))
          else scan_parts lib rest (text, Some (get_content_type part))
      | Inl e \<Rightarrow> scan_parts lib rest (body, Some (get_content_type part)))"

definition extract_body :: "pylib \<Rightarrow> message \<Rightarrow> pyexn + (string \<times> string)" where
  "extract_body lib email_message =
     (if is_multipart email_message then
        (case scan_parts lib (walk email_message) ([], None) of
           (body, None) \<Rightarrow> Inl (UnboundLocalError ''content_type'')
         | (body, Some content_type) \<Rightarrow> Inr (body, content_type))
      else
        (case payload_text lib email_message of
           Inl e \<Rightarrow> Inl e
         | Inr body \<Rightarrow> Inr (body, get_content_type email_message)))"

text \<open>
  The specification's wording of the multi-part case, as a definition of its own: a part
  yields text when its payload decodes to a non-empty string; the result is the text and
  type of the first such part in document order, and otherwise the empty body with the type
  of the last part.
\<close>

definition yields_text :: "pylib \<Rightarrow> message \<Rightarrow> bool" where
  "yields_text lib part = (case payload_text lib part of Inr text \<Rightarrow> text \<noteq> [] | Inl e \<Rightarrow> False)"

definition first_text_part :: "pylib \<Rightarrow> message list \<Rightarrow> string \<times> string" where
  "first_text_part lib ps =
     (case find (yields_text lib) ps of
        Some part \<Rightarrow> (case payload_text lib part of Inr text \<Rightarrow> text | Inl e \<Rightarrow> [], get_content_type part)
      | None \<Rightarrow> ([], get_content_type (last ps)))"

section \<open>The connection, the calls made on it, and exceptions\<close>

text \<open>
  The methods of \<^verbatim>\<open>imaplib.IMAP4_SSL\<close> that the server calls. \<^verbatim>\<open>Search\<close> carries the charset
  argument (always \<^verbatim>\<open>None\<close> in the source) and the criteria. \<open>ListCmd\<close> is
  \<^verbatim>\<open>mail.list()\<close>.
\<close>

datatype command =
    Connect string
  | Login string string
  | Select string
  | Fetch string string
  | Store string string string
  | Expunge
  | Copy string string
  | ListCmd
  | Search "string option" "string list"
  | Logout

text \<open>
  Each of them either raises or returns the pair \<^verbatim>\<open>(typ, data)\<close>. The library together with the
  remote server is a transition function on a state \<open>'c\<close> of their own: the same command may
  be answered differently at different times.
\<close>

type_synonym response = "string \<times> item list"

type_synonym 'c imap = "'c \<Rightarrow> command \<Rightarrow> (pyexn + response) \<times> 'c"

text \<open>
  The state of one invocation: the library and server state, the calls made so far in
  order, and whether the local variable \<^verbatim>\<open>mail\<close> is bound.
\<close>

record 'c state =
  conn :: 'c
  calls :: "command list"
  mail :: bool

type_synonym ('c, 'a) prog = "'c state \<Rightarrow> (pyexn + 'a) \<times> 'c state"

definition ret :: "'a \<Rightarrow> ('c, 'a) prog" where
  "ret x = (\<lambda>s. (Inr x, s))"

definition raise :: "pyexn \<Rightarrow> ('c, 'a) prog" where
  "raise e = (\<lambda>s. (Inl e, s))"

definition lift :: "pyexn + 'a \<Rightarrow> ('c, 'a) prog" where
  "lift r = (\<lambda>s. (r, s))"

definition bnd :: "('c, 'a) prog \<Rightarrow> ('a \<Rightarrow> ('c, 'b) prog) \<Rightarrow> ('c, 'b) prog" where
  "bnd m f = (\<lambda>s. case m s of (Inl e, s') \<Rightarrow> (Inl e, s') | (Inr x, s') \<Rightarrow> f x s')"

text \<open>\<^verbatim>\<open>try: m except Exception as e: h(e)\<close>. A normal return of \<open>m\<close> leaves the handler out.\<close>

definition try_except :: "('c, 'a) prog \<Rightarrow> (pyexn \<Rightarrow> ('c, 'a) prog) \<Rightarrow> ('c, 'a) prog" where
  "try_except m h = (\<lambda>s. case m s of (Inl e, s') \<Rightarrow> h e s' | (Inr x, s') \<Rightarrow> (Inr x, s'))"

definition call :: "'c imap \<Rightarrow> command \<Rightarrow> ('c, response) prog" where
  "call imap c = (\<lambda>s. case imap (conn s) c of
                        (r, c') \<Rightarrow> (r, s\<lparr>conn := c', calls := calls s @ [c]\<rparr>))"

text \<open>
  \<^verbatim>\<open>mail = imaplib.IMAP4_SSL(SERVER)\<close>: the assignment happens only when the constructor
  returns.
\<close>

definition IMAP4_SSL :: "'c imap \<Rightarrow> string \<Rightarrow> ('c, unit) prog" where
  "IMAP4_SSL imap host = bnd (call imap (Connect host)) (\<lambda>r s. (Inr (), s\<lparr>mail := True\<rparr>))"

text \<open>
  \<^verbatim>\<open>mail.f(...)\<close>: reading the local variable \<^verbatim>\<open>mail\<close> while it is unbound raises
  \<^verbatim>\<open>UnboundLocalError\<close>, and no call is made.
\<close>

definition mail_call :: "'c imap \<Rightarrow> command \<Rightarrow> ('c, response) prog" where
  "mail_call imap c = (\<lambda>s. if mail s then call imap c s else (Inl (UnboundLocalError ''mail''), s))"

text \<open>The handler that all six tools share: \<^verbatim>\<open>mail.logout(); raise e\<close>.\<close>

definition logout_and_reraise :: "'c imap \<Rightarrow> pyexn \<Rightarrow> ('c, 'a) prog" where
  "logout_and_reraise imap e = bnd (mail_call imap Logout) (\<lambda>r. raise e)"

text \<open>A tool starts with no call made and \<^verbatim>\<open>mail\<close> unbound.\<close>

definition invoke :: "('c, 'a) prog \<Rightarrow> 'c \<Rightarrow> (pyexn + 'a) \<times> 'c state" where
  "invoke p c = p \<lparr>conn = c, calls = [], mail = False\<rparr>"

text \<open>The three settings read from the environment when the module is loaded.\<close>

record config =
  USER :: string
  PASSWORD :: string
  SERVER :: string

section \<open>Helpers on responses\<close>

text \<open>
  \<^verbatim>\<open>email.message_from_bytes(data[0][1])\<close>. \<^verbatim>\<open>data[0]\<close> raises \<^verbatim>\<open>IndexError\<close> on an empty
  list; subscripting \<^verbatim>\<open>None\<close> raises \<^verbatim>\<open>TypeError\<close>; subscripting a bytes object gives an
  integer (or \<^verbatim>\<open>IndexError\<close>), which the parser cannot decode (\<^verbatim>\<open>AttributeError\<close>).
\<close>

definition parse_fetched :: "pylib \<Rightarrow> item list \<Rightarrow> pyexn + message" where
  "parse_fetched lib data =
     (case data of
        [] \<Rightarrow> Inl IndexError
      | PyNone # rest \<Rightarrow> Inl TypeError
      | Bytes b # rest \<Rightarrow> if length b < 2 then Inl IndexError else Inl AttributeError
      | Tuple h raw_email # rest \<Rightarrow> Inr (message_from_bytes lib raw_email))"

text \<open>\<^verbatim>\<open>bytes.split()\<close> without argument: the maximal runs of non-whitespace bytes.\<close>

definition is_space :: "char \<Rightarrow> bool" where
  "is_space c = (c \<in> set [CHR '' '', CHR 0x09, CHR 0x0A, CHR 0x0B, CHR 0x0C, CHR 0x0D])"

fun split_ws :: "string \<Rightarrow> string \<Rightarrow> string list" where
  "split_ws cur [] = (if cur = [] then [] else [cur])"
| "split_ws cur (c # cs) =
     (if is_space c then (if cur = [] then split_ws [] cs else cur # split_ws [] cs)
      else split_ws (cur @ [c]) cs)"

text \<open>\<^verbatim>\<open>recent[0].split()\<close>: only a bytes object has \<^verbatim>\<open>split\<close>.\<close>

definition split_ids :: "item list \<Rightarrow> pyexn + string list" where
  "split_ids data =
     (case data of
        [] \<Rightarrow> Inl IndexError
      | Bytes b # rest \<Rightarrow> Inr (split_ws [] b)
      | other # rest \<Rightarrow> Inl AttributeError)"


text \<open>The separator of \<^verbatim>\<open>list_mailboxes\<close>: a double quote, a dot, a double quote.\<close>

definition list_delimiter :: string where
  "list_delimiter = [CHR 0x22, CHR ''.'', CHR 0x22]"




section \<open>The six tools\<close>

record parsed_message =
  msg_subject :: "string option"
  msg_from :: "string option"
  msg_body :: string
  msg_type :: string

definition RFC822 :: string where
  "RFC822 = ''(RFC822)''"

definition view_email ::
  "'c imap \<Rightarrow> pylib \<Rightarrow> config \<Rightarrow> string \<Rightarrow> string \<Rightarrow> 'c \<Rightarrow> (pyexn + parsed_message) \<times> 'c state" where
  "view_email imap lib cfg email_id mailbox =
     invoke (try_except
       (bnd (IMAP4_SSL imap (SERVER cfg)) (\<lambda>u.
        bnd (mail_call imap (Login (USER cfg) (PASSWORD cfg))) (\<lambda>r1.
        bnd (mail_call imap (Select mailbox)) (\<lambda>r2.
        bnd (mail_call imap (Fetch email_id RFC822)) (\<lambda>(status, data).
          if status = ''OK'' then
            bnd (lift (parse_fetched lib data)) (\<lambda>email_message.
            bnd (lift (extract_body lib email_message)) (\<lambda>(body, type).
            ret \<lparr> msg_subject = get_header email_message ''Subject'',
                  msg_from = get_header email_message ''From'',
                  msg_body = body,
                  msg_type = type \<rparr>))
          else raise (Exception (''Email '' @ email_id @ '' not found'')))))))
       (logout_and_reraise imap))"

definition delete_email ::
  "'c imap \<Rightarrow> config \<Rightarrow> string \<Rightarrow> string \<Rightarrow> 'c \<Rightarrow> (pyexn + (string \<times> string) list) \<times> 'c state" where
  "delete_email imap cfg email_id mailbox =
     invoke (try_except
       (bnd (IMAP4_SSL imap (SERVER cfg)) (\<lambda>u.
        bnd (mail_call imap (Login (USER cfg) (PASSWORD cfg))) (\<lambda>r1.
        bnd (mail_call imap (Select mailbox)) (\<lambda>r2.
        bnd (mail_call imap (Store email_id ''+FLAGS'' ''(DELETED)'')) (\<lambda>r3.
        bnd (mail_call imap Expunge) (\<lambda>r4.
        bnd (mail_call imap Logout) (\<lambda>r5.
        ret [(''status'', ''success''), (''email_id'', email_id), (''mailbox'', mailbox)])))))))
       (logout_and_reraise imap))"

definition move_email ::
  "'c imap \<Rightarrow> config \<Rightarrow> string \<Rightarrow> string \<Rightarrow> 'c \<Rightarrow> (pyexn + (string \<times> string) list) \<times> 'c state" where
  "move_email imap cfg email_id target_mailbox =
     invoke (try_except
       (bnd (IMAP4_SSL imap (SERVER cfg)) (\<lambda>u.
        bnd (mail_call imap (Login (USER cfg) (PASSWORD cfg))) (\<lambda>r1.
        bnd (mail_call imap (Select ''INBOX'')) (\<lambda>r2.
        bnd (mail_call imap (Copy email_id target_mailbox)) (\<lambda>r3.
        bnd (mail_call imap (Store email_id ''+FLAGS'' ''(DELETED)'')) (\<lambda>r4.
        bnd (mail_call imap Expunge) (\<lambda>r5.
        bnd (mail_call imap Logout) (\<lambda>r6.
        ret [(''status'', ''success''), (''email_id'', email_id),
             (''target_mailbox'', target_mailbox)]))))))))
       (logout_and_reraise imap))"


text \<open>
  The value stored for one id, \<^verbatim>\<open>{'Subject': ..., 'Date': ...}\<close>; a header that is absent
  reads as \<^verbatim>\<open>None\<close>.
\<close>

record summary =
  Subject :: "string option"
  Date :: "string option"

definition summary_of :: "message \<Rightarrow> summary" where
  "summary_of email_message =
     \<lparr> Subject = get_header email_message ''Subject'', Date = get_header email_message ''Date'' \<rparr>"

text \<open>
  The \<^verbatim>\<open>for email_id in email_ids\<close> loop of \<^verbatim>\<open>check_unseen\<close> and \<^verbatim>\<open>search_emails\<close> (the two
  copies are the same text). \<^verbatim>\<open>result_subjects\<close> is a dictionary: storing under a key that
  is present replaces the value in place, as \<open>AList.update\<close> does.
\<close>

fun fetch_summaries ::
  "'c imap \<Rightarrow> pylib \<Rightarrow> string list \<Rightarrow> (string \<times> summary) list \<Rightarrow> ('c, (string \<times> summary) list) prog" where
  "fetch_summaries imap lib [] result_subjects = ret result_subjects"
| "fetch_summaries imap lib (email_id # rest) result_subjects =
     bnd (mail_call imap (Fetch email_id RFC822)) (\<lambda>(status, data).
       if status = ''OK'' then
         bnd (lift (parse_fetched lib data)) (\<lambda>email_message.
           fetch_summaries imap lib rest
             (AList.update email_id (summary_of email_message) result_subjects))
       else fetch_summaries imap lib rest result_subjects)"

definition check_unseen ::
  "'c imap \<Rightarrow> pylib \<Rightarrow> config \<Rightarrow> 'c \<Rightarrow> (pyexn + (string \<times> summary) list) \<times> 'c state" where
  "check_unseen imap lib cfg =
     invoke (try_except
       (bnd (IMAP4_SSL imap (SERVER cfg)) (\<lambda>u.
        bnd (mail_call imap (Login (USER cfg) (PASSWORD cfg))) (\<lambda>r1.
        bnd (mail_call imap (Select ''INBOX'')) (\<lambda>r2.
        bnd (mail_call imap (Search None [''UNSEEN''])) (\<lambda>(status, recent).
        bnd (lift (split_ids recent)) (\<lambda>email_ids.
        bnd (fetch_summaries imap lib email_ids []) (\<lambda>result_subjects.
        bnd (mail_call imap Logout) (\<lambda>r3.
        ret result_subjects))))))))
       (logout_and_reraise imap))"

text \<open>
  \<^verbatim>\<open>search_emails\<close> returns either the dictionary or, on a search status other than
  \<^verbatim>\<open>"OK"\<close>, a one-element list of text.
\<close>

datatype search_result = Summaries "(string \<times> summary) list" | Messages "string list"

definition search_emails ::
  "'c imap \<Rightarrow> pylib \<Rightarrow> config \<Rightarrow> string \<Rightarrow> string \<Rightarrow> string \<Rightarrow> 'c \<Rightarrow> (pyexn + search_result) \<times> 'c state" where
  "search_emails imap lib cfg criterion val mailbox =
     invoke (try_except
       (bnd (IMAP4_SSL imap (SERVER cfg)) (\<lambda>u.
        bnd (mail_call imap (Login (USER cfg) (PASSWORD cfg))) (\<lambda>r1.
        bnd (mail_call imap (Select mailbox)) (\<lambda>r2.
        bnd (mail_call imap (Search None [criterion, val])) (\<lambda>(status, messages).
          if status \<noteq> ''OK'' then ret (Messages [''No matching emails found.''])
          else
            bnd (lift (split_ids messages)) (\<lambda>email_ids.
            bnd (fetch_summaries imap lib email_ids []) (\<lambda>result_subjects.
            bnd (mail_call imap Logout) (\<lambda>r3.
            ret (Summaries result_subjects)))))))))
       (logout_and_reraise imap))"

section \<open>Concrete inputs\<close>

text \<open>
  A connection that answers from a script: each call consumes the next scripted outcome,
  whatever the command; when the script is used up it answers \<^verbatim>\<open>('OK', [])\<close>.
\<close>

definition scripted :: "(pyexn + response) list imap" where
  "scripted script c = (case script of [] \<Rightarrow> (Inr (''OK'', []), []) | r # rest \<Rightarrow> (r, rest))"

definition ok :: "pyexn + response" where
  "ok = Inr (''OK'', [PyNone])"


definition quoted_archive :: string where
  "quoted_archive = [CHR 0x22] @ ''Archive'' @ [CHR 0x22]"

text \<open>
  A connection whose answer depends on the command alone: message \<^verbatim>\<open>1\<close> exists, any other
  fetch is refused, every search matches the ids \<^verbatim>\<open>1\<close> and \<^verbatim>\<open>2\<close>, and the listing has
  the lines \<^verbatim>\<open>(x) "." INBOX\<close> and \<^verbatim>\<open>(x) "." "Archive"\<close>. Its state counts the calls.
\<close>

definition toy_reply :: "command \<Rightarrow> pyexn + response" where
  "toy_reply cmd =
     (case cmd of
        Fetch i p \<Rightarrow>
          if i = ''1'' then Inr (''OK'', [Tuple ''1 (RFC822 {5}'' ''Hi|yo'', Bytes '')''])
          else Inr (''NO'', [Bytes ''No such message''])
      | Search cs crit \<Rightarrow> Inr (''OK'', [Bytes ''1 2''])
      | ListCmd \<Rightarrow>
          Inr (''OK'', [Bytes (''(x) '' @ list_delimiter @ '' INBOX''),
                       Bytes (''(x) '' @ list_delimiter @ '' '' @ quoted_archive)])
      | other \<Rightarrow> ok)"

definition toy_server :: "nat imap" where
  "toy_server n cmd = (toy_reply cmd, Suc n)"

text \<open>The answers of \<open>toy_server\<close> to a fetch, by id.\<close>

definition toy_fetch :: "string \<Rightarrow> response" where
  "toy_fetch i = (if i = ''1'' then (''OK'', [Tuple ''1 (RFC822 {5}'' ''Hi|yo'', Bytes '')''])
                  else (''NO'', [Bytes ''No such message'']))"

definition cfg0 :: config where
  "cfg0 = \<lparr> USER = ''me'', PASSWORD = ''secret'', SERVER = ''imap.example.org'' \<rparr>"

text \<open>A small concrete library for evaluating the model: 7-bit text, identity decoding.\<close>

definition ascii_decode :: "bytes \<Rightarrow> pyexn + string" where
  "ascii_decode b = (if list_all (\<lambda>c. of_char c < (128::nat)) b then Inr b else Inl UnicodeDecodeError)"

definition toy_parse :: "bytes \<Rightarrow> message" where
  "toy_parse b = Leaf [(''Subject'', takeWhile (\<lambda>c. c \<noteq> CHR ''|'') b), (''Date'', ''today'')] ''text/plain''
                   (drop 1 (dropWhile (\<lambda>c. c \<noteq> CHR ''|'') b))"

definition toy_lib :: pylib where
  "toy_lib = \<lparr> message_from_bytes = toy_parse, transfer_decode = (\<lambda>h b. b), bytes_decode = ascii_decode \<rparr>"

definition four_parts :: message where
  "four_parts = Multipart [] ''multipart/mixed''
     [ Leaf [] ''text/plain'' [],
       Leaf [] ''application/octet-stream'' [CHR 0xFF],
       Leaf [] ''text/plain'' ''hello'',
       Leaf [] ''text/html'' ''<p>hello</p>'' ]"

text \<open>The scripts and lines used as concrete inputs below.\<close>

definition message_1 :: "pyexn + response" where
  "message_1 = Inr (''OK'', [Tuple ''1 (RFC822 {5}'' ''Hi|yo'', Bytes '')''])"

definition view_ok_script :: "(pyexn + response) list" where
  "view_ok_script = [ok, ok, ok, message_1]"

definition connect_refused_script :: "(pyexn + response) list" where
  "connect_refused_script = [Inl (LibError ''Connection refused'')]"

definition copy_no_script :: "(pyexn + response) list" where
  "copy_no_script =
     [ok, ok, ok, Inr (''NO'', [Bytes ''[TRYCREATE] Mailbox does not exist'']), ok, ok, ok]"

definition unseen_script :: "(pyexn + response) list" where
  "unseen_script = [ok, ok, ok, Inr (''OK'', [Bytes ''1'']), message_1, ok]"

definition search_no_script :: "(pyexn + response) list" where
  "search_no_script = [ok, ok, ok, Inr (''NO'', [Bytes ''Invalid search criterion''])]"

definition fetch_no_script :: "(pyexn + response) list" where
  "fetch_no_script = [ok, ok, ok, Inr (''NO'', [Bytes ''No such message'']), ok]"

definition logout_fails_script :: "(pyexn + response) list" where
  "logout_fails_script =
     [ok, ok, ok, Inr (''NO'', [Bytes ''No such message'']), Inl (LibError ''socket error: EOF'')]"






section \<open>Predicates used in the statements\<close>

text \<open>
  A command that never raises, and a command that is always answered with the same pair,
  whatever the state of the connection.
\<close>

definition returns :: "'c imap \<Rightarrow> command \<Rightarrow> bool" where
  "returns imap cmd = (\<forall>c. \<exists>r. fst (imap c cmd) = Inr r)"

definition replies :: "'c imap \<Rightarrow> command \<Rightarrow> response \<Rightarrow> bool" where
  "replies imap cmd r = (\<forall>c. fst (imap c cmd) = Inr r)"

text \<open>
  The dictionary that the specification describes for a list of ids, when the fetch of id
  \<open>i\<close> is answered with \<open>f i\<close>: an entry for exactly the ids whose fetch reported
  \<^verbatim>\<open>"OK"\<close>, holding the summary of the fetched message.
\<close>

definition fetched :: "pylib \<Rightarrow> (string \<Rightarrow> response) \<Rightarrow> string list \<Rightarrow> string \<Rightarrow> summary option" where
  "fetched lib f ids i =
     (if i \<in> set ids \<and> fst (f i) = ''OK'' then
        (case parse_fetched lib (snd (f i)) of Inr msg \<Rightarrow> Some (summary_of msg) | Inl e \<Rightarrow> None)
      else None)"

text \<open>
  The same wording with the two headers written out: the dictionary \<open>m\<close> has an entry for
  an id exactly when the id is among \<open>ids\<close> and its fetch reported \<^verbatim>\<open>"OK"\<close>, and the entry
  holds the \<^verbatim>\<open>Subject\<close> and \<^verbatim>\<open>Date\<close> headers of the message fetched, and nothing else.
\<close>

definition subject_and_date ::
  "pylib \<Rightarrow> (string \<Rightarrow> response) \<Rightarrow> string list \<Rightarrow> (string \<times> summary) list \<Rightarrow> bool" where
  "subject_and_date lib f ids m =
     (\<forall>i. case map_of m i of
            None \<Rightarrow> \<not> (i \<in> set ids \<and> fst (f i) = ''OK'')
          | Some s \<Rightarrow>
              i \<in> set ids \<and>
              (\<exists>h raw rest. f i = (''OK'', Tuple h raw # rest) \<and>
                 s = \<lparr> Subject = get_header (message_from_bytes lib raw) ''Subject'',
                       Date = get_header (message_from_bytes lib raw) ''Date'' \<rparr>))"


text \<open>
  A call that is not a fetch, or a fetch of the item \<^verbatim>\<open>(RFC822)\<close>: the whole message,
  header and body, the item \<^verbatim>\<open>view_email\<close> fetches.
\<close>

definition full_fetch :: "command \<Rightarrow> bool" where
  "full_fetch cmd = (case cmd of Fetch i p \<Rightarrow> p = ''(RFC822)'' | other \<Rightarrow> True)"

definition keeps :: "('c, 'a) prog \<Rightarrow> bool" where
  "keeps p = (\<forall>s r s'. p s = (r, s') \<longrightarrow> list_all full_fetch (calls s) \<longrightarrow>
                list_all full_fetch (calls s'))"

section \<open>Body extraction: theorems\<close>

lemma walk_nonempty: "walk m \<noteq> []"
  by (cases m) simp_all

lemma scan_parts_first_text:
  "scan_parts lib ps ([], ct) =
     (case find (yields_text lib) ps of
        Some part \<Rightarrow> (case payload_text lib part of Inr text \<Rightarrow> text | Inl e \<Rightarrow> [], Some (get_content_type part))
      | None \<Rightarrow> ([], if ps = [] then ct else Some (get_content_type (last ps))))"
proof (induction ps arbitrary: ct)
  case Nil
  show ?case by simp
next
  case (Cons p ps)
  show ?case
  proof (cases "payload_text lib p")
    case (Inl e)
    then show ?thesis
      using Cons.IH [of "Some (get_content_type p)"]
      by (simp add: yields_text_def split: option.splits)
  next
    case (Inr t)
    then show ?thesis
      using Cons.IH [of "Some (get_content_type p)"]
      by (simp add: yields_text_def split: option.splits)
  qed
qed

text \<open>
  C3. For a multi-part message, \<open>extract_body\<close> never raises; it returns the decoded text
  and content type of the first part, in the order of \<open>walk\<close>, whose payload decodes to a
  non-empty string, parts that raise being passed over, and when there is no such part it
  returns the empty body with the content type of the last part walked. The result is a
  function of the library and the message alone, so repeated calls agree.
\<close>

theorem extract_body_multipart:
  "is_multipart m \<Longrightarrow> extract_body lib m = Inr (first_text_part lib (walk m))"
  by (simp add: extract_body_def first_text_part_def scan_parts_first_text walk_nonempty
           split: option.splits)

theorem extract_body_multipart_witness:
  "is_multipart four_parts \<and> extract_body toy_lib four_parts = Inr (''hello'', ''text/plain'')"
proof -
  have m: "is_multipart four_parts" by (simp add: four_parts_def)
  have "first_text_part toy_lib (walk four_parts) = (''hello'', ''text/plain'')"
    by (simp add: first_text_part_def four_parts_def yields_text_def payload_text_def
                  toy_lib_def ascii_decode_def)
  with m extract_body_multipart [OF m, of toy_lib] show ?thesis by simp
qed

text \<open>
  C9. For a single-part message, \<open>extract_body\<close> decodes the payload with the transfer
  decoding chosen by the part's headers and then as text; when that succeeds the result is
  the text with the message's content type, and when it raises, the same exception leaves
  \<open>extract_body\<close>: no other part or value is tried.
\<close>

theorem extract_body_single_part:
  "\<not> is_multipart m \<Longrightarrow>
     (\<exists>h c b. m = Leaf h c b \<and>
        extract_body lib m =
          (case bytes_decode lib (transfer_decode lib h b) of
             Inl e \<Rightarrow> Inl e
           | Inr body \<Rightarrow> Inr (body, get_content_type m)))"
  by (cases m) (simp_all add: extract_body_def payload_text_def split: sum.splits)

theorem extract_body_single_part_witness:
  "\<not> is_multipart (Leaf [] ''text/plain'' [CHR 0xFF]) \<and>
   extract_body toy_lib (Leaf [] ''text/plain'' [CHR 0xFF]) = Inl UnicodeDecodeError \<and>
   extract_body toy_lib (Leaf [] ''text/plain'' ''hi'') = Inr (''hi'', ''text/plain'')"
proof -
  have a: "\<not> is_multipart (Leaf [] ''text/plain'' [CHR 0xFF])" by simp
  have b: "\<not> is_multipart (Leaf [] ''text/plain'' ''hi'')" by simp
  show ?thesis
    using extract_body_single_part [OF a, of toy_lib] extract_body_single_part [OF b, of toy_lib]
    by (simp add: toy_lib_def ascii_decode_def)
qed

section \<open>The tools: lemmas\<close>

text \<open>The definitions that a run of a tool unfolds, and those of the concrete inputs.\<close>

lemmas run_defs = invoke_def try_except_def bnd_def IMAP4_SSL_def mail_call_def call_def ret_def
  raise_def lift_def logout_and_reraise_def RFC822_def

lemmas toy_defs = scripted_def ok_def cfg0_def toy_lib_def toy_parse_def ascii_decode_def lower_def
  parse_fetched_def extract_body_def payload_text_def message_1_def

subsection \<open>Single calls\<close>

lemma mail_call_returns:
  "mail s \<Longrightarrow> imap (conn s) c = (r, c') \<Longrightarrow>
     mail_call imap c s = (r, s\<lparr>conn := c', calls := calls s @ [c]\<rparr>)"
  by (simp add: mail_call_def call_def)

lemma mail_call_reply:
  assumes "mail s" and "\<forall>c. fst (imap c cmd) = Inr r"
  shows "\<exists>c'. mail_call imap cmd s = (Inr r, s\<lparr>conn := c', calls := calls s @ [cmd]\<rparr>)"
proof -
  obtain x c' where x: "imap (conn s) cmd = (x, c')" by (cases "imap (conn s) cmd")
  with assms(2) have "x = Inr r" by (metis fst_conv)
  with x assms(1) show ?thesis by (auto simp: mail_call_returns)
qed

lemma mail_call_ok:
  assumes "mail s" and "returns imap cmd"
  shows "\<exists>r s'. mail_call imap cmd s = (Inr r, s') \<and> mail s' \<and> calls s' = calls s @ [cmd]"
proof -
  obtain x c' where x: "imap (conn s) cmd = (x, c')" by (cases "imap (conn s) cmd")
  from assms(2) obtain r where "fst (imap (conn s) cmd) = Inr r" unfolding returns_def by blast
  with x have "x = Inr r" by simp
  with x assms(1) show ?thesis by (simp add: mail_call_returns)
qed

lemma mail_call_replies:
  assumes "mail s" and "replies imap cmd r"
  shows "\<exists>s'. mail_call imap cmd s = (Inr r, s') \<and> mail s' \<and> calls s' = calls s @ [cmd]"
proof -
  obtain x c' where x: "imap (conn s) cmd = (x, c')" by (cases "imap (conn s) cmd")
  from assms(2) have "fst (imap (conn s) cmd) = Inr r" unfolding replies_def by blast
  with x have "x = Inr r" by simp
  with x assms(1) show ?thesis by (simp add: mail_call_returns)
qed

lemma IMAP4_SSL_ok:
  assumes "returns imap (Connect h)"
  shows "\<exists>s'. IMAP4_SSL imap h s = (Inr (), s') \<and> mail s' \<and> calls s' = calls s @ [Connect h]"
proof -
  obtain x c' where x: "imap (conn s) (Connect h) = (x, c')" by (cases "imap (conn s) (Connect h)")
  from assms obtain r where "fst (imap (conn s) (Connect h)) = Inr r" unfolding returns_def by blast
  with x have "x = Inr r" by simp
  with x show ?thesis by (simp add: IMAP4_SSL_def bnd_def call_def)
qed

subsection \<open>The fetch loop\<close>

lemma fetch_summaries_run:
  assumes "\<forall>i\<in>set ids. \<forall>c. fst (imap c (Fetch i RFC822)) = Inr (f i)"
    and "\<forall>i\<in>set ids. fst (f i) = ''OK'' \<longrightarrow> (\<exists>h raw rest. snd (f i) = Tuple h raw # rest)"
    and "mail s"
  shows "\<exists>acc' s'. fetch_summaries imap lib ids acc s = (Inr acc', s') \<and> mail s' \<and>
           calls s' = calls s @ map (\<lambda>i. Fetch i RFC822) ids \<and>
           map_of acc' = map_of acc ++ fetched lib f ids"
  using assms
proof (induction ids arbitrary: acc s)
  case Nil
  then show ?case by (simp add: ret_def fetched_def map_add_def)
next
  case (Cons i ids)
  from Cons.prems(1) have r: "\<forall>c. fst (imap c (Fetch i RFC822)) = Inr (f i)" by simp
  from mail_call_reply [of s imap "Fetch i RFC822" "f i", OF Cons.prems(3) r]
  obtain c' where m: "mail_call imap (Fetch i RFC822) s = (Inr (f i), s\<lparr>conn := c', calls := calls s @ [Fetch i RFC822]\<rparr>)"
    by blast
  let ?s1 = "s\<lparr>conn := c', calls := calls s @ [Fetch i RFC822]\<rparr>"
  have m1: "mail ?s1" using Cons.prems(3) by simp
  have p1: "\<forall>i\<in>set ids. \<forall>c. fst (imap c (Fetch i RFC822)) = Inr (f i)" using Cons.prems(1) by simp
  have p2: "\<forall>i\<in>set ids. fst (f i) = ''OK'' \<longrightarrow> (\<exists>h raw rest. snd (f i) = Tuple h raw # rest)"
    using Cons.prems(2) by simp
  obtain st d where fi: "f i = (st, d)" by (cases "f i")
  show ?case
  proof (cases "st = ''OK''")
    case True
    with Cons.prems(2) fi obtain h raw rest where d: "d = Tuple h raw # rest" by auto
    let ?msg = "message_from_bytes lib raw"
    let ?acc1 = "AList.update i (summary_of ?msg) acc"
    from Cons.IH [OF p1 p2 m1, of ?acc1]
    obtain acc' s' where ih: "fetch_summaries imap lib ids ?acc1 ?s1 = (Inr acc', s')" "mail s'"
      "calls s' = calls ?s1 @ map (\<lambda>i. Fetch i RFC822) ids"
      "map_of acc' = map_of ?acc1 ++ fetched lib f ids" by blast
    have run: "fetch_summaries imap lib (i # ids) acc s = (Inr acc', s')"
      using m fi True d ih(1) by (simp add: bnd_def lift_def parse_fetched_def)
    have "map_of ?acc1 ++ fetched lib f ids = map_of acc ++ fetched lib f (i # ids)"
      using fi True d
      by (auto simp: fun_eq_iff map_add_def fetched_def update_conv' parse_fetched_def split: option.splits)
    with ih run show ?thesis by simp
  next
    case False
    from Cons.IH [OF p1 p2 m1, of acc]
    obtain acc' s' where ih: "fetch_summaries imap lib ids acc ?s1 = (Inr acc', s')" "mail s'"
      "calls s' = calls ?s1 @ map (\<lambda>i. Fetch i RFC822) ids"
      "map_of acc' = map_of acc ++ fetched lib f ids" by blast
    have run: "fetch_summaries imap lib (i # ids) acc s = (Inr acc', s')"
      using m fi False ih(1) by (simp add: bnd_def)
    have "fetched lib f ids = fetched lib f (i # ids)"
      using fi False by (auto simp: fun_eq_iff fetched_def)
    with ih run show ?thesis by simp
  qed
qed

lemma fetch_summaries_replies:
  assumes "\<forall>i. replies imap (Fetch i RFC822) (f i)"
    and "\<forall>i. fst (f i) = ''OK'' \<longrightarrow> (\<exists>h raw rest. snd (f i) = Tuple h raw # rest)"
    and "mail s"
  shows "\<exists>acc' s'. fetch_summaries imap lib ids [] s = (Inr acc', s') \<and> mail s' \<and>
           calls s' = calls s @ map (\<lambda>i. Fetch i RFC822) ids \<and>
           map_of acc' = fetched lib f ids"
proof -
  have a: "\<forall>i\<in>set ids. \<forall>c. fst (imap c (Fetch i RFC822)) = Inr (f i)"
    using assms(1) by (simp add: replies_def)
  have b: "\<forall>i\<in>set ids. fst (f i) = ''OK'' \<longrightarrow> (\<exists>h raw rest. snd (f i) = Tuple h raw # rest)"
    using assms(2) by simp
  from fetch_summaries_run [OF a b assms(3), of lib "[]"] show ?thesis by simp
qed

subsection \<open>A whole run of the two summary tools\<close>

lemma check_unseen_run:
  assumes connect: "returns imap (Connect (SERVER cfg))"
    and login: "returns imap (Login (USER cfg) (PASSWORD cfg))"
    and inbox: "returns imap (Select ''INBOX'')"
    and logout: "returns imap Logout"
    and unseen: "replies imap (Search None [''UNSEEN'']) (st, Bytes ids # others)"
    and fetch: "\<forall>i. replies imap (Fetch i RFC822) (f i)"
    and tuple: "\<forall>i. fst (f i) = ''OK'' \<longrightarrow> (\<exists>h raw rest. snd (f i) = Tuple h raw # rest)"
  shows "\<exists>m s. check_unseen imap lib cfg c0 = (Inr m, s) \<and>
           map_of m = fetched lib f (split_ws [] ids) \<and>
           calls s = [Connect (SERVER cfg), Login (USER cfg) (PASSWORD cfg), Select ''INBOX'',
                      Search None [''UNSEEN'']] @
                     map (\<lambda>i. Fetch i RFC822) (split_ws [] ids) @ [Logout]"
proof -
  let ?s0 = "\<lparr>conn = c0, calls = [], mail = False\<rparr>"
  from IMAP4_SSL_ok [OF connect, of ?s0]
  obtain s1 where s1: "IMAP4_SSL imap (SERVER cfg) ?s0 = (Inr (), s1)" "mail s1"
    "calls s1 = [Connect (SERVER cfg)]" by auto
  from mail_call_ok [OF s1(2) login]
  obtain r1 s2 where s2: "mail_call imap (Login (USER cfg) (PASSWORD cfg)) s1 = (Inr r1, s2)" "mail s2"
    "calls s2 = calls s1 @ [Login (USER cfg) (PASSWORD cfg)]" by blast
  from mail_call_ok [OF s2(2) inbox]
  obtain r2 s3 where s3: "mail_call imap (Select ''INBOX'') s2 = (Inr r2, s3)" "mail s3"
    "calls s3 = calls s2 @ [Select ''INBOX'']" by blast
  from mail_call_replies [OF s3(2) unseen]
  obtain s4 where s4: "mail_call imap (Search None [''UNSEEN'']) s3 = (Inr (st, Bytes ids # others), s4)"
    "mail s4" "calls s4 = calls s3 @ [Search None [''UNSEEN'']]" by blast
  from fetch_summaries_replies [OF fetch tuple s4(2), of lib "split_ws [] ids"]
  obtain m s5 where s5: "fetch_summaries imap lib (split_ws [] ids) [] s4 = (Inr m, s5)" "mail s5"
    "calls s5 = calls s4 @ map (\<lambda>i. Fetch i RFC822) (split_ws [] ids)"
    "map_of m = fetched lib f (split_ws [] ids)" by blast
  from mail_call_ok [OF s5(2) logout]
  obtain r3 s6 where s6: "mail_call imap Logout s5 = (Inr r3, s6)" "calls s6 = calls s5 @ [Logout]"
    by blast
  have "check_unseen imap lib cfg c0 = (Inr m, s6)"
    using s1(1) s2(1) s3(1) s4(1) s5(1) s6(1)
    by (simp add: check_unseen_def invoke_def try_except_def bnd_def lift_def split_ids_def ret_def)
  moreover have "calls s6 = [Connect (SERVER cfg), Login (USER cfg) (PASSWORD cfg), Select ''INBOX'',
                      Search None [''UNSEEN'']] @
                     map (\<lambda>i. Fetch i RFC822) (split_ws [] ids) @ [Logout]"
    using s1(3) s2(3) s3(3) s4(3) s5(3) s6(2) by simp
  ultimately show ?thesis using s5(4) by blast
qed

lemma search_emails_run:
  assumes connect: "returns imap (Connect (SERVER cfg))"
    and login: "returns imap (Login (USER cfg) (PASSWORD cfg))"
    and select: "returns imap (Select mailbox)"
    and logout: "returns imap Logout"
    and search: "replies imap (Search None [criterion, val]) (''OK'', Bytes ids # others)"
    and fetch: "\<forall>i. replies imap (Fetch i RFC822) (f i)"
    and tuple: "\<forall>i. fst (f i) = ''OK'' \<longrightarrow> (\<exists>h raw rest. snd (f i) = Tuple h raw # rest)"
  shows "\<exists>m s. search_emails imap lib cfg criterion val mailbox c0 = (Inr (Summaries m), s) \<and>
           map_of m = fetched lib f (split_ws [] ids) \<and>
           calls s = [Connect (SERVER cfg), Login (USER cfg) (PASSWORD cfg), Select mailbox,
                      Search None [criterion, val]] @
                     map (\<lambda>i. Fetch i RFC822) (split_ws [] ids) @ [Logout]"
proof -
  let ?s0 = "\<lparr>conn = c0, calls = [], mail = False\<rparr>"
  from IMAP4_SSL_ok [OF connect, of ?s0]
  obtain s1 where s1: "IMAP4_SSL imap (SERVER cfg) ?s0 = (Inr (), s1)" "mail s1"
    "calls s1 = [Connect (SERVER cfg)]" by auto
  from mail_call_ok [OF s1(2) login]
  obtain r1 s2 where s2: "mail_call imap (Login (USER cfg) (PASSWORD cfg)) s1 = (Inr r1, s2)" "mail s2"
    "calls s2 = calls s1 @ [Login (USER cfg) (PASSWORD cfg)]" by blast
  from mail_call_ok [OF s2(2) select]
  obtain r2 s3 where s3: "mail_call imap (Select mailbox) s2 = (Inr r2, s3)" "mail s3"
    "calls s3 = calls s2 @ [Select mailbox]" by blast
  from mail_call_replies [OF s3(2) search]
  obtain s4 where s4: "mail_call imap (Search None [criterion, val]) s3 = (Inr (''OK'', Bytes ids # others), s4)"
    "mail s4" "calls s4 = calls s3 @ [Search None [criterion, val]]" by blast
  from fetch_summaries_replies [OF fetch tuple s4(2), of lib "split_ws [] ids"]
  obtain m s5 where s5: "fetch_summaries imap lib (split_ws [] ids) [] s4 = (Inr m, s5)" "mail s5"
    "calls s5 = calls s4 @ map (\<lambda>i. Fetch i RFC822) (split_ws [] ids)"
    "map_of m = fetched lib f (split_ws [] ids)" by blast
  from mail_call_ok [OF s5(2) logout]
  obtain r3 s6 where s6: "mail_call imap Logout s5 = (Inr r3, s6)" "calls s6 = calls s5 @ [Logout]"
    by blast
  have "search_emails imap lib cfg criterion val mailbox c0 = (Inr (Summaries m), s6)"
    using s1(1) s2(1) s3(1) s4(1) s5(1) s6(1)
    by (simp add: search_emails_def invoke_def try_except_def bnd_def lift_def split_ids_def ret_def)
  moreover have "calls s6 = [Connect (SERVER cfg), Login (USER cfg) (PASSWORD cfg), Select mailbox,
                      Search None [criterion, val]] @
                     map (\<lambda>i. Fetch i RFC822) (split_ws [] ids) @ [Logout]"
    using s1(3) s2(3) s3(3) s4(3) s5(3) s6(2) by simp
  ultimately show ?thesis using s5(4) by blast
qed

lemma fetched_subject_and_date:
  assumes "map_of m = fetched lib f ids"
    and "\<forall>i. fst (f i) = ''OK'' \<longrightarrow> (\<exists>h raw rest. snd (f i) = Tuple h raw # rest)"
  shows "subject_and_date lib f ids m"
  unfolding subject_and_date_def
proof
  fix i
  show "case map_of m i of
          None \<Rightarrow> \<not> (i \<in> set ids \<and> fst (f i) = ''OK'')
        | Some s \<Rightarrow>
            i \<in> set ids \<and>
            (\<exists>h raw rest. f i = (''OK'', Tuple h raw # rest) \<and>
               s = \<lparr> Subject = get_header (message_from_bytes lib raw) ''Subject'',
                     Date = get_header (message_from_bytes lib raw) ''Date'' \<rparr>)"
  proof (cases "i \<in> set ids \<and> fst (f i) = ''OK''")
    case False
    then have "fetched lib f ids i = None" by (auto simp: fetched_def)
    with assms(1) False show ?thesis by simp
  next
    case True
    with assms(2) obtain h raw rest where t: "snd (f i) = Tuple h raw # rest" by blast
    with True have fi: "f i = (''OK'', Tuple h raw # rest)" by (cases "f i") simp
    from True t have "fetched lib f ids i = Some (summary_of (message_from_bytes lib raw))"
      by (simp add: fetched_def parse_fetched_def)
    with assms(1) True fi show ?thesis by (simp add: summary_of_def)
  qed
qed

subsection \<open>Splitting a listing line\<close>









subsection \<open>Every fetch asks for the whole message\<close>

lemma keeps_ret: "keeps (ret x)" by (simp add: keeps_def ret_def)

lemma keeps_raise: "keeps (raise e)" by (simp add: keeps_def raise_def)

lemma keeps_lift: "keeps (lift r)" by (simp add: keeps_def lift_def)

lemma keeps_bnd: "keeps m \<Longrightarrow> (\<And>x. keeps (f x)) \<Longrightarrow> keeps (bnd m f)"
  unfolding keeps_def bnd_def
  by (auto split: prod.splits sum.splits)

lemma keeps_try: "keeps m \<Longrightarrow> (\<And>e. keeps (h e)) \<Longrightarrow> keeps (try_except m h)"
  unfolding keeps_def try_except_def
  by (auto split: prod.splits sum.splits)

lemma keeps_call: "full_fetch cmd \<Longrightarrow> keeps (call imap cmd)"
  by (auto simp: keeps_def call_def split: prod.splits)

lemma keeps_mail_call: "full_fetch cmd \<Longrightarrow> keeps (mail_call imap cmd)"
  using keeps_call [of cmd imap]
  by (auto simp: keeps_def mail_call_def split: if_splits)

lemma keeps_IMAP4_SSL: "keeps (IMAP4_SSL imap h)"
  by (auto simp: IMAP4_SSL_def bnd_def call_def keeps_def full_fetch_def split: prod.splits sum.splits)

lemma keeps_handler: "keeps (logout_and_reraise imap e)"
  unfolding logout_and_reraise_def
  by (intro keeps_bnd keeps_mail_call keeps_raise) (simp add: full_fetch_def)

lemma keeps_fetch_summaries: "keeps (fetch_summaries imap lib ids acc)"
proof (induction ids arbitrary: acc)
  case Nil
  show ?case by (simp add: keeps_ret)
next
  case (Cons i ids)
  show ?case
    unfolding fetch_summaries.simps
    by (intro keeps_bnd keeps_mail_call) (auto simp: full_fetch_def RFC822_def Cons.IH keeps_lift intro!: keeps_bnd)
qed

lemma keeps_invoke: "keeps p \<Longrightarrow> list_all full_fetch (calls (snd (invoke p c)))"
  by (cases "p \<lparr>conn = c, calls = [], mail = False\<rparr>") (auto simp: keeps_def invoke_def)

text \<open>
  On any connection and whatever the outcome, \<open>check_unseen\<close> and \<open>search_emails\<close> issue
  no fetch for an item other than \<^verbatim>\<open>(RFC822)\<close>.
\<close>

lemma every_fetch_is_whole_message:
  "list_all full_fetch (calls (snd (check_unseen imap lib cfg c0))) \<and>
   list_all full_fetch (calls (snd (search_emails imap lib cfg criterion val mailbox c0)))"
proof
  show "list_all full_fetch (calls (snd (check_unseen imap lib cfg c0)))"
    unfolding check_unseen_def
    by (intro keeps_invoke keeps_try keeps_handler keeps_bnd keeps_IMAP4_SSL keeps_mail_call)
       (auto simp: full_fetch_def keeps_lift keeps_ret keeps_fetch_summaries intro!: keeps_bnd keeps_mail_call)
  show "list_all full_fetch (calls (snd (search_emails imap lib cfg criterion val mailbox c0)))"
    unfolding search_emails_def
    by (intro keeps_invoke keeps_try keeps_handler keeps_bnd keeps_IMAP4_SSL keeps_mail_call)
       (auto simp: full_fetch_def keeps_lift keeps_ret keeps_fetch_summaries intro!: keeps_bnd keeps_mail_call)
qed


section \<open>The tools: theorems\<close>

text \<open>
  C1. The specification requires that every invocation, whatever its outcome, opens one
  connection and calls \<^verbatim>\<open>logout\<close> exactly once before it returns or raises. \<open>view_email\<close>
  does not: on a connection where every call succeeds and the fetch reports \<^verbatim>\<open>"OK"\<close>, the
  parsed message is returned after the calls connect, login, select and fetch, and
  \<^verbatim>\<open>logout\<close> is not among the calls.
\<close>

theorem view_email_returns_without_logout:
  "view_email scripted toy_lib cfg0 ''1'' ''INBOX'' view_ok_script =
     (Inr \<lparr>msg_subject = Some ''Hi'', msg_from = None, msg_body = ''yo'', msg_type = ''text/plain''\<rparr>,
      \<lparr>conn = [],
       calls = [Connect ''imap.example.org'', Login ''me'' ''secret'', Select ''INBOX'',
                Fetch ''1'' ''(RFC822)''],
       mail = True\<rparr>) \<and>
   count_list (calls (snd (view_email scripted toy_lib cfg0 ''1'' ''INBOX'' view_ok_script))) Logout = 0"
  by (simp add: view_email_def view_ok_script_def run_defs toy_defs)

text \<open>
  C2. The specification requires that a failure of the initial connect is re-raised
  unchanged, the cleanup being a no-op. In \<open>view_email\<close> and \<open>search_emails\<close>, on a
  connection whose constructor raises \<open>LibError ''Connection refused''\<close>, the handler reads
  the unbound variable \<^verbatim>\<open>mail\<close>, and the exception that leaves the tool is
  \<open>UnboundLocalError\<close>, not the connect failure.
\<close>

theorem connect_failure_is_masked:
  "view_email scripted toy_lib cfg0 ''1'' ''INBOX'' connect_refused_script =
     (Inl (UnboundLocalError ''mail''),
      \<lparr>conn = [], calls = [Connect ''imap.example.org''], mail = False\<rparr>) \<and>
   search_emails scripted toy_lib cfg0 ''SUBJECT'' ''Invoice'' ''INBOX'' connect_refused_script =
     (Inl (UnboundLocalError ''mail''),
      \<lparr>conn = [], calls = [Connect ''imap.example.org''], mail = False\<rparr>)"
  by (simp add: view_email_def search_emails_def connect_refused_script_def run_defs toy_defs)

text \<open>
  C4. The specification requires that \<open>move_email\<close> sets no deletion flag when the copy
  fails. On a connection where the copy is answered \<^verbatim>\<open>NO\<close> (the target mailbox does not
  exist), \<open>move_email\<close> still calls the store of the deletion flag and the expunge, in
  that order after the copy, on the mailbox \<^verbatim>\<open>INBOX\<close>, and reports success.
\<close>

theorem move_email_flags_after_failed_copy:
  "move_email scripted cfg0 ''1'' ''Archive'' copy_no_script =
     (Inr [(''status'', ''success''), (''email_id'', ''1''), (''target_mailbox'', ''Archive'')],
      \<lparr>conn = [],
       calls = [Connect ''imap.example.org'', Login ''me'' ''secret'', Select ''INBOX'',
                Copy ''1'' ''Archive'', Store ''1'' ''+FLAGS'' ''(DELETED)'', Expunge, Logout],
       mail = True\<rparr>)"
  by (simp add: move_email_def copy_no_script_def run_defs toy_defs)

text \<open>
  C5, as amended. On a connection where the session's calls return, the search returns the
  ids, and the fetch of id \<open>i\<close> is answered \<open>f i\<close> (a well-formed message whenever the
  status is \<^verbatim>\<open>"OK"\<close>), \<open>check_unseen\<close> and \<open>search_emails\<close> make, between the search
  and the logout, exactly one fetch for each matching id, in order, and each of these fetches
  asks for the item \<^verbatim>\<open>(RFC822)\<close>, the whole message with its body, as \<open>view_email\<close> does.
  The dictionary returned has an entry for exactly the ids whose fetch reported \<^verbatim>\<open>"OK"\<close>,
  and each entry holds only the \<^verbatim>\<open>Subject\<close> and \<^verbatim>\<open>Date\<close> headers of the message fetched.
\<close>

theorem summaries_fetch_full_messages:
  assumes connect: "returns imap (Connect (SERVER cfg))"
    and login: "returns imap (Login (USER cfg) (PASSWORD cfg))"
    and inbox: "returns imap (Select ''INBOX'')"
    and select: "returns imap (Select mailbox)"
    and logout: "returns imap Logout"
    and unseen: "replies imap (Search None [''UNSEEN'']) (st, Bytes ids # others)"
    and search: "replies imap (Search None [criterion, val]) (''OK'', Bytes ids' # others')"
    and fetch: "\<forall>i. replies imap (Fetch i ''(RFC822)'') (f i)"
    and tuple: "\<forall>i. fst (f i) = ''OK'' \<longrightarrow> (\<exists>h raw rest. snd (f i) = Tuple h raw # rest)"
  shows "(\<exists>m s. check_unseen imap lib cfg c0 = (Inr m, s) \<and>
            calls s = [Connect (SERVER cfg), Login (USER cfg) (PASSWORD cfg), Select ''INBOX'',
                       Search None [''UNSEEN'']] @
                      map (\<lambda>i. Fetch i ''(RFC822)'') (split_ws [] ids) @ [Logout] \<and>
            subject_and_date lib f (split_ws [] ids) m) \<and>
         (\<exists>m s. search_emails imap lib cfg criterion val mailbox c0 = (Inr (Summaries m), s) \<and>
            calls s = [Connect (SERVER cfg), Login (USER cfg) (PASSWORD cfg), Select mailbox,
                       Search None [criterion, val]] @
                      map (\<lambda>i. Fetch i ''(RFC822)'') (split_ws [] ids') @ [Logout] \<and>
            subject_and_date lib f (split_ws [] ids') m)"
proof
  have fetch': "\<forall>i. replies imap (Fetch i RFC822) (f i)" using fetch by (simp add: RFC822_def)
  from check_unseen_run [OF connect login inbox logout unseen fetch' tuple, of lib c0]
  obtain m s where r: "check_unseen imap lib cfg c0 = (Inr m, s)"
    "map_of m = fetched lib f (split_ws [] ids)"
    "calls s = [Connect (SERVER cfg), Login (USER cfg) (PASSWORD cfg), Select ''INBOX'',
                Search None [''UNSEEN'']] @ map (\<lambda>i. Fetch i RFC822) (split_ws [] ids) @ [Logout]"
    by blast
  from fetched_subject_and_date [OF r(2) tuple] r(1) r(3)
  show "\<exists>m s. check_unseen imap lib cfg c0 = (Inr m, s) \<and>
            calls s = [Connect (SERVER cfg), Login (USER cfg) (PASSWORD cfg), Select ''INBOX'',
                       Search None [''UNSEEN'']] @
                      map (\<lambda>i. Fetch i ''(RFC822)'') (split_ws [] ids) @ [Logout] \<and>
            subject_and_date lib f (split_ws [] ids) m"
    by (simp add: RFC822_def)
next
  have fetch': "\<forall>i. replies imap (Fetch i RFC822) (f i)" using fetch by (simp add: RFC822_def)
  from search_emails_run [OF connect login select logout search fetch' tuple, of lib c0]
  obtain m s where r: "search_emails imap lib cfg criterion val mailbox c0 = (Inr (Summaries m), s)"
    "map_of m = fetched lib f (split_ws [] ids')"
    "calls s = [Connect (SERVER cfg), Login (USER cfg) (PASSWORD cfg), Select mailbox,
                Search None [criterion, val]] @ map (\<lambda>i. Fetch i RFC822) (split_ws [] ids') @ [Logout]"
    by blast
  from fetched_subject_and_date [OF r(2) tuple] r(1) r(3)
  show "\<exists>m s. search_emails imap lib cfg criterion val mailbox c0 = (Inr (Summaries m), s) \<and>
            calls s = [Connect (SERVER cfg), Login (USER cfg) (PASSWORD cfg), Select mailbox,
                       Search None [criterion, val]] @
                      map (\<lambda>i. Fetch i ''(RFC822)'') (split_ws [] ids') @ [Logout] \<and>
            subject_and_date lib f (split_ws [] ids') m"
    by (simp add: RFC822_def)
qed

theorem summaries_fetch_full_messages_witness:
  "(\<exists>m s. check_unseen toy_server toy_lib cfg0 0 = (Inr m, s) \<and>
        calls s = [Connect ''imap.example.org'', Login ''me'' ''secret'', Select ''INBOX'',
                   Search None [''UNSEEN''], Fetch ''1'' ''(RFC822)'', Fetch ''2'' ''(RFC822)'', Logout] \<and>
        subject_and_date toy_lib toy_fetch [''1'', ''2''] m) \<and>
   (\<exists>m s. search_emails toy_server toy_lib cfg0 ''SUBJECT'' ''Hi'' ''Work'' 0 = (Inr (Summaries m), s) \<and>
        calls s = [Connect ''imap.example.org'', Login ''me'' ''secret'', Select ''Work'',
                   Search None [''SUBJECT'', ''Hi''], Fetch ''1'' ''(RFC822)'', Fetch ''2'' ''(RFC822)'',
                   Logout] \<and>
        subject_and_date toy_lib toy_fetch [''1'', ''2''] m)"
proof -
  have h1: "returns toy_server (Connect (SERVER cfg0))"
    and h2: "returns toy_server (Login (USER cfg0) (PASSWORD cfg0))"
    and h3: "returns toy_server (Select ''INBOX'')"
    and h4: "returns toy_server (Select ''Work'')"
    and h5: "returns toy_server Logout"
    by (simp_all add: returns_def toy_server_def toy_reply_def ok_def)
  have h6: "replies toy_server (Search None [''UNSEEN'']) (''OK'', Bytes ''1 2'' # [])"
    and h7: "replies toy_server (Search None [''SUBJECT'', ''Hi'']) (''OK'', Bytes ''1 2'' # [])"
    by (simp_all add: replies_def toy_server_def toy_reply_def)
  have h8: "\<forall>i. replies toy_server (Fetch i ''(RFC822)'') (toy_fetch i)"
    by (simp add: replies_def toy_server_def toy_reply_def toy_fetch_def)
  have h9: "\<forall>i. fst (toy_fetch i) = ''OK'' \<longrightarrow> (\<exists>h raw rest. snd (toy_fetch i) = Tuple h raw # rest)"
    by (simp add: toy_fetch_def)
  have ids: "split_ws [] ''1 2'' = [''1'', ''2'']" by (simp add: is_space_def)
  from summaries_fetch_full_messages [OF h1 h2 h3 h4 h5 h6 h7 h8 h9, of toy_lib 0] ids
  show ?thesis by (simp add: cfg0_def)
qed

text \<open>
  C5 as the specification states it, that no message body is fetched, fails on a mailbox
  with one unseen message: \<open>check_unseen\<close> fetches the whole message \<^verbatim>\<open>1\<close>.
\<close>

theorem check_unseen_fetches_whole_message:
  "Fetch ''1'' ''(RFC822)'' \<in> set (calls (snd (check_unseen scripted toy_lib cfg0 unseen_script)))"
  by (simp add: check_unseen_def unseen_script_def run_defs toy_defs split_ids_def is_space_def summary_of_def)




text \<open>
  C7. When connect, login and select return and the search returns a status other than
  \<^verbatim>\<open>"OK"\<close>, \<open>search_emails\<close> returns the one-element list
  \<^verbatim>\<open>["No matching emails found."]\<close> and raises nothing, for every criterion, value and
  mailbox.
\<close>

theorem search_emails_sentinel:
  assumes "imap c0 (Connect (SERVER cfg)) = (Inr r0, c1)"
    and "imap c1 (Login (USER cfg) (PASSWORD cfg)) = (Inr r1, c2)"
    and "imap c2 (Select mailbox) = (Inr r2, c3)"
    and "imap c3 (Search None [criterion, val]) = (Inr (status, messages), c4)"
    and "status \<noteq> ''OK''"
  shows "fst (search_emails imap lib cfg criterion val mailbox c0) =
           Inr (Messages [''No matching emails found.''])"
  using assms
  by (simp add: search_emails_def run_defs)

theorem search_emails_sentinel_witness:
  "fst (search_emails scripted toy_lib cfg0 ''SUBJECT'' ''Invoice'' ''INBOX'' search_no_script) =
     Inr (Messages [''No matching emails found.''])"
proof -
  let ?no = "Inr (''NO'', [Bytes ''Invalid search criterion'']) :: pyexn + response"
  have a: "scripted search_no_script (Connect (SERVER cfg0)) = (Inr (''OK'', [PyNone]), [ok, ok, ?no])"
    and b: "scripted [ok, ok, ?no] (Login (USER cfg0) (PASSWORD cfg0)) = (Inr (''OK'', [PyNone]), [ok, ?no])"
    and c: "scripted [ok, ?no] (Select ''INBOX'') = (Inr (''OK'', [PyNone]), [?no])"
    and d: "scripted [?no] (Search None [''SUBJECT'', ''Invoice'']) =
              (Inr (''NO'', [Bytes ''Invalid search criterion'']), [])"
    by (simp_all add: search_no_script_def scripted_def ok_def)
  have e: "''NO'' \<noteq> ''OK''" by simp
  from search_emails_sentinel [OF a b c d e] show ?thesis .
qed

text \<open>
  C8, as amended. When connect, login and select return and the fetch returns a status
  other than \<^verbatim>\<open>"OK"\<close>, \<open>view_email\<close> does not return a parsed message: it raises, and
  when the \<^verbatim>\<open>logout\<close> of the handler returns, what it raises is the plain
  \<^verbatim>\<open>Exception\<close> with the message \<^verbatim>\<open>Email <id> not found\<close>.
\<close>

theorem view_email_not_found:
  assumes "imap c0 (Connect (SERVER cfg)) = (Inr r0, c1)"
    and "imap c1 (Login (USER cfg) (PASSWORD cfg)) = (Inr r1, c2)"
    and "imap c2 (Select mailbox) = (Inr r2, c3)"
    and "imap c3 (Fetch email_id ''(RFC822)'') = (Inr (status, data), c4)"
    and "status \<noteq> ''OK''"
  shows "(\<exists>e. fst (view_email imap lib cfg email_id mailbox c0) = Inl e) \<and>
         (\<forall>r4 c5. imap c4 Logout = (Inr r4, c5) \<longrightarrow>
            fst (view_email imap lib cfg email_id mailbox c0) =
              Inl (Exception (''Email '' @ email_id @ '' not found'')))"
proof -
  obtain x c5 where l: "imap c4 Logout = (x, c5)" by (cases "imap c4 Logout")
  show ?thesis
  proof (cases x)
    case (Inl e)
    with assms l show ?thesis by (simp add: view_email_def run_defs)
  next
    case (Inr r)
    with assms l show ?thesis by (simp add: view_email_def run_defs)
  qed
qed

theorem view_email_not_found_witness:
  "fst (view_email scripted toy_lib cfg0 ''7'' ''INBOX'' fetch_no_script) =
     Inl (Exception ''Email 7 not found'')"
proof -
  let ?no = "Inr (''NO'', [Bytes ''No such message'']) :: pyexn + response"
  have a: "scripted fetch_no_script (Connect (SERVER cfg0)) = (Inr (''OK'', [PyNone]), [ok, ok, ?no, ok])"
    and b: "scripted [ok, ok, ?no, ok] (Login (USER cfg0) (PASSWORD cfg0)) =
              (Inr (''OK'', [PyNone]), [ok, ?no, ok])"
    and c: "scripted [ok, ?no, ok] (Select ''INBOX'') = (Inr (''OK'', [PyNone]), [?no, ok])"
    and d: "scripted [?no, ok] (Fetch ''7'' ''(RFC822)'') = (Inr (''NO'', [Bytes ''No such message'']), [ok])"
    and f: "scripted [ok] Logout = (Inr (''OK'', [PyNone]), [])"
    by (simp_all add: fetch_no_script_def scripted_def ok_def)
  have e: "''NO'' \<noteq> ''OK''" by simp
  from view_email_not_found [OF a b c d e, of toy_lib] f show ?thesis by simp
qed

text \<open>
  C8 as the specification states it fails when the \<^verbatim>\<open>logout\<close> of the handler raises: the
  exception that leaves \<open>view_email\<close> is then the one of \<^verbatim>\<open>logout\<close>, and the message id is
  not in it.
\<close>

theorem view_email_not_found_masked:
  "fst (view_email scripted toy_lib cfg0 ''7'' ''INBOX'' logout_fails_script) =
     Inl (LibError ''socket error: EOF'') \<and>
   LibError ''socket error: EOF'' \<noteq> Exception ''Email 7 not found''"
  by (simp add: view_email_def logout_fails_script_def run_defs toy_defs)

text \<open>
  C10. On a connection where the session's calls return, the search returns the ids, and the
  fetch of id \<open>i\<close> is answered \<open>f i\<close> (a well-formed message whenever the status is
  \<^verbatim>\<open>"OK"\<close>), \<open>check_unseen\<close> and \<open>search_emails\<close> return normally, and the dictionary
  they return has an entry for exactly the ids whose fetch reported \<^verbatim>\<open>"OK"\<close>: an id whose
  fetch reported another status is left out and raises nothing.
\<close>

theorem failed_fetches_are_skipped:
  assumes connect: "returns imap (Connect (SERVER cfg))"
    and login: "returns imap (Login (USER cfg) (PASSWORD cfg))"
    and inbox: "returns imap (Select ''INBOX'')"
    and select: "returns imap (Select mailbox)"
    and logout: "returns imap Logout"
    and unseen: "replies imap (Search None [''UNSEEN'']) (st, Bytes ids # others)"
    and search: "replies imap (Search None [criterion, val]) (''OK'', Bytes ids' # others')"
    and fetch: "\<forall>i. replies imap (Fetch i RFC822) (f i)"
    and tuple: "\<forall>i. fst (f i) = ''OK'' \<longrightarrow> (\<exists>h raw rest. snd (f i) = Tuple h raw # rest)"
  shows "(\<exists>m. fst (check_unseen imap lib cfg c0) = Inr m \<and>
              map_of m = fetched lib f (split_ws [] ids)) \<and>
         (\<exists>m. fst (search_emails imap lib cfg criterion val mailbox c0) = Inr (Summaries m) \<and>
              map_of m = fetched lib f (split_ws [] ids'))"
proof -
  let ?s0 = "\<lparr>conn = c0, calls = [], mail = False\<rparr>"
  from IMAP4_SSL_ok [OF connect, of ?s0]
  obtain s1 where s1: "IMAP4_SSL imap (SERVER cfg) ?s0 = (Inr (), s1)" "mail s1" by blast
  from mail_call_ok [OF s1(2) login]
  obtain r1 s2 where s2: "mail_call imap (Login (USER cfg) (PASSWORD cfg)) s1 = (Inr r1, s2)" "mail s2"
    by blast
  have "\<exists>m. fst (check_unseen imap lib cfg c0) = Inr m \<and> map_of m = fetched lib f (split_ws [] ids)"
  proof -
    from mail_call_ok [OF s2(2) inbox]
    obtain r2 s3 where s3: "mail_call imap (Select ''INBOX'') s2 = (Inr r2, s3)" "mail s3" by blast
    from mail_call_replies [OF s3(2) unseen]
    obtain s4 where s4: "mail_call imap (Search None [''UNSEEN'']) s3 = (Inr (st, Bytes ids # others), s4)"
      "mail s4" by blast
    from fetch_summaries_replies [OF fetch tuple s4(2), of lib "split_ws [] ids"]
    obtain m s5 where s5: "fetch_summaries imap lib (split_ws [] ids) [] s4 = (Inr m, s5)" "mail s5"
      "map_of m = fetched lib f (split_ws [] ids)" by blast
    from mail_call_ok [OF s5(2) logout]
    obtain r3 s6 where s6: "mail_call imap Logout s5 = (Inr r3, s6)" by blast
    have "fst (check_unseen imap lib cfg c0) = Inr m"
      using s1(1) s2(1) s3(1) s4(1) s5(1) s6
      by (simp add: check_unseen_def invoke_def try_except_def bnd_def lift_def split_ids_def ret_def)
    with s5(3) show ?thesis by blast
  qed
  moreover
  have "\<exists>m. fst (search_emails imap lib cfg criterion val mailbox c0) = Inr (Summaries m) \<and>
             map_of m = fetched lib f (split_ws [] ids')"
  proof -
    from mail_call_ok [OF s2(2) select]
    obtain r2 s3 where s3: "mail_call imap (Select mailbox) s2 = (Inr r2, s3)" "mail s3" by blast
    from mail_call_replies [OF s3(2) search]
    obtain s4 where s4: "mail_call imap (Search None [criterion, val]) s3 = (Inr (''OK'', Bytes ids' # others'), s4)"
      "mail s4" by blast
    from fetch_summaries_replies [OF fetch tuple s4(2), of lib "split_ws [] ids'"]
    obtain m s5 where s5: "fetch_summaries imap lib (split_ws [] ids') [] s4 = (Inr m, s5)" "mail s5"
      "map_of m = fetched lib f (split_ws [] ids')" by blast
    from mail_call_ok [OF s5(2) logout]
    obtain r3 s6 where s6: "mail_call imap Logout s5 = (Inr r3, s6)" by blast
    have "fst (search_emails imap lib cfg criterion val mailbox c0) = Inr (Summaries m)"
      using s1(1) s2(1) s3(1) s4(1) s5(1) s6
      by (simp add: search_emails_def invoke_def try_except_def bnd_def lift_def split_ids_def ret_def)
    with s5(3) show ?thesis by blast
  qed
  ultimately show ?thesis by blast
qed

theorem failed_fetches_are_skipped_witness:
  "(\<exists>m. fst (check_unseen toy_server toy_lib cfg0 0) = Inr m \<and>
        map_of m = fetched toy_lib toy_fetch [''1'', ''2'']) \<and>
   (\<exists>m. fst (search_emails toy_server toy_lib cfg0 ''SUBJECT'' ''Hi'' ''Work'' 0) = Inr (Summaries m) \<and>
        map_of m = fetched toy_lib toy_fetch [''1'', ''2'']) \<and>
   fetched toy_lib toy_fetch [''1'', ''2''] ''1'' = Some \<lparr>Subject = Some ''Hi'', Date = Some ''today''\<rparr> \<and>
   fetched toy_lib toy_fetch [''1'', ''2''] ''2'' = None"
proof -
  have h1: "returns toy_server (Connect (SERVER cfg0))"
    and h2: "returns toy_server (Login (USER cfg0) (PASSWORD cfg0))"
    and h3: "returns toy_server (Select ''INBOX'')"
    and h4: "returns toy_server (Select ''Work'')"
    and h5: "returns toy_server Logout"
    by (simp_all add: returns_def toy_server_def toy_reply_def ok_def)
  have h6: "replies toy_server (Search None [''UNSEEN'']) (''OK'', Bytes ''1 2'' # [])"
    and h7: "replies toy_server (Search None [''SUBJECT'', ''Hi'']) (''OK'', Bytes ''1 2'' # [])"
    by (simp_all add: replies_def toy_server_def toy_reply_def)
  have h8: "\<forall>i. replies toy_server (Fetch i RFC822) (toy_fetch i)"
    by (simp add: replies_def toy_server_def toy_reply_def toy_fetch_def)
  have h9: "\<forall>i. fst (toy_fetch i) = ''OK'' \<longrightarrow> (\<exists>h raw rest. snd (toy_fetch i) = Tuple h raw # rest)"
    by (simp add: toy_fetch_def)
  have ids: "split_ws [] ''1 2'' = [''1'', ''2'']" by (simp add: is_space_def)
  have v: "fetched toy_lib toy_fetch [''1'', ''2''] ''1'' = Some \<lparr>Subject = Some ''Hi'', Date = Some ''today''\<rparr>"
     "fetched toy_lib toy_fetch [''1'', ''2''] ''2'' = None"
    by (simp_all add: fetched_def toy_fetch_def parse_fetched_def toy_lib_def toy_parse_def summary_of_def
                      lower_def)
  from failed_fetches_are_skipped [OF h1 h2 h3 h4 h5 h6 h7 h8 h9, of toy_lib 0] ids v
  show ?thesis by simp
qed

end
